theory Spec2Isabelle
  imports Complex_Main
begin

section \<open>Strings, messages and exceptions\<close>

text \<open>
  Python strings are modelled as \<open>string\<close>, one \<open>char\<close> per code point below 256.
  \<open>str.strip()\<close> without arguments removes the characters for which \<open>str.isspace\<close>
  holds from both ends; below 256 these are U+0009..U+000D, U+001C..U+001F, U+0020,
  U+0085 and U+00A0.
\<close>

definition is_space :: "char \<Rightarrow> bool" where
  "is_space c \<longleftrightarrow>
     (let n = (of_char c :: nat)
      in (9 \<le> n \<and> n \<le> 13) \<or> (28 \<le> n \<and> n \<le> 32) \<or> n = 133 \<or> n = 160)"

definition strip :: "string \<Rightarrow> string" where
  "strip s = rev (dropWhile is_space (rev (dropWhile is_space s)))"

text \<open>Decimal rendering of a length inside an f-string.\<close>

definition digit_char :: "nat \<Rightarrow> char" where
  "digit_char d = ''0123456789'' ! d"

fun str_of_nat :: "nat \<Rightarrow> string" where
  "str_of_nat n = (if n < 10 then [digit_char n] else str_of_nat (n div 10) @ [digit_char (n mod 10)])"

declare str_of_nat.simps [simp del]

text \<open>A chat message is the dict \<open>{"role": ..., "content": ...}\<close>.\<close>

record message =
  role :: string
  content :: string

text \<open>
  An exception caught by \<open>except Exception as e\<close> is represented by \<open>str(e)\<close>, the only
  thing the handlers read. Exceptions outside the \<open>Exception\<close> hierarchy are not caught
  by the source and are not modelled.
\<close>

datatype exn = Exception (str: string)

text \<open>
  A value handed to the UI framework is either the plain value or \<open>gr.update(value=...)\<close>;
  Python's \<open>None\<close> in such a slot is \<open>None\<close> of an \<open>option\<close> around it.
\<close>

datatype 'v gr_output = Raw 'v | Update 'v

section \<open>Program state\<close>

text \<open>The module-global \<open>llm_config\<close> (imported as \<open>global_config\<close>), as far as this file writes it.\<close>

record global_config =
  SYSTEM_MESSAGE :: string
  TEMPERATURE :: real

text \<open>
  The \<open>ChatApp\<close> object together with the global configuration it writes. The three
  \<open>*_component\<close> fields record whether the attribute is bound to a component (truthy) or
  still \<open>None\<close>. Fields \<open>sentences\<close> to \<open>llm\<close> belong to the base class \<open>WebAppBase\<close>;
  \<open>llm\<close> is \<open>None\<close> when the attribute does not exist (\<open>hasattr\<close> is false). The types
  \<open>'a\<close> and \<open>'l\<close> stand for audio segments and for the \<open>AskLLM\<close> object. Printing and
  logging leave the state alone and are left out, and so is the lock: the methods are
  modelled as they run one at a time.
\<close>

record ('a, 'l) chat_app =
  status_output_component :: bool
  chatbot_component :: bool
  audio_output_component :: bool
  current_status :: string
  ui_messages :: "message list"
  sentences :: "string list"
  audio_segments :: "'a list"
  current_model :: string
  current_voice :: string
  current_resolved_alias :: string
  llm :: "'l option"
  llm_config :: global_config

text \<open>The three \<open>gr.State\<close> values that \<open>main\<close> creates per browser session.\<close>

record session =
  sentence_index :: int
  sentence_end_index :: int
  processing_active :: bool

definition initial_session :: session where
  "initial_session = \<lparr>sentence_index = 0, sentence_end_index = 0, processing_active = False\<rparr>"

text \<open>The class attribute \<open>current_status = ""\<close>.\<close>

definition initial_current_status :: string where
  "initial_current_status = []"

section \<open>Small methods\<close>

definition update_status ::
  "string \<Rightarrow> ('a, 'l) chat_app \<Rightarrow> string gr_output option \<times> ('a, 'l) chat_app" where
  "update_status msg app =
     (let app = app\<lparr>current_status := msg\<rparr>
      in if status_output_component app then (Some (Update msg), app) else (None, app))"

definition clear_ui ::
  "('a, 'l) chat_app \<Rightarrow> message list gr_output \<times> 'a option gr_output option" where
  "clear_ui app =
     (if chatbot_component app then Update [] else Raw [],
      if audio_output_component app then Some (Update None) else None)"

text \<open>
  \<open>get_answer\<close> calls \<open>self.llm.query\<close>. The query function of the absent \<open>AskLLM\<close> class
  is a parameter: it reads the global configuration, may change the LLM object (its
  history) and returns the answer or raises.
\<close>

definition attribute_error_llm :: exn where
  "attribute_error_llm =
     Exception ([CHR 0x27] @ ''ChatApp'' @ [CHR 0x27] @ '' object has no attribute '' @
                [CHR 0x27] @ ''llm'' @ [CHR 0x27])"

definition get_answer ::
  "(global_config \<Rightarrow> 'l \<Rightarrow> string \<Rightarrow> (exn + string) \<times> 'l) \<Rightarrow>
   string \<Rightarrow> ('a, 'l) chat_app \<Rightarrow> (exn + string) \<times> ('a, 'l) chat_app" where
  "get_answer llm_query query app =
     (case llm app of
        None \<Rightarrow> (Inl attribute_error_llm, app)
      | Some l \<Rightarrow>
          (let (r, l') = llm_query (llm_config app) l query
           in (r, app\<lparr>llm := Some l'\<rparr>)))"

section \<open>Query processing\<close>

text \<open>
  One tuple yielded by \<open>process_query\<close>, in the order of \<open>process_outputs\<close> in \<open>main\<close>:
  chatbot messages, status, sentence index, sentence end index, active flag, audio.
\<close>

type_synonym 'a pq_update =
  "message list \<times> string gr_output option \<times> int \<times> int \<times> bool \<times> 'a option"

definition pq_start :: "'a pq_update \<Rightarrow> int" where
  "pq_start u = (case u of (m, s, i, j, act, au) \<Rightarrow> i)"

definition pq_end :: "'a pq_update \<Rightarrow> int" where
  "pq_end u = (case u of (m, s, i, j, act, au) \<Rightarrow> j)"

definition pq_active :: "'a pq_update \<Rightarrow> bool" where
  "pq_active u = (case u of (m, s, i, j, act, au) \<Rightarrow> act)"

definition pq_audio :: "'a pq_update \<Rightarrow> 'a option" where
  "pq_audio u = (case u of (m, s, i, j, act, au) \<Rightarrow> au)"

text \<open>
  \<open>process_query\<close> is a generator: the model returns the list of tuples it yields when
  it is run to its end, and the state it leaves, nothing else writing the object while
  it is suspended. It is cut at the places where control
  can leave the straight line: the part before the \<open>try\<close> (the lists are emptied, the
  user message is appended, the first tuple is yielded), the body of the \<open>try\<close>, and the
  \<open>except\<close> block. The body returns the tuples it yielded, the exception that ended it
  (if any) and the state at that moment. The sentence splitter of the base class is a
  parameter that returns the sentences or raises.
\<close>

definition process_query_begin ::
  "string \<Rightarrow> ('a, 'l) chat_app \<Rightarrow> 'a pq_update \<times> ('a, 'l) chat_app" where
  "process_query_begin processed_query app =
     (let app = app\<lparr>sentences := [], audio_segments := []\<rparr>;
          user_message = \<lparr>role = ''user'', content = processed_query\<rparr>;
          app = app\<lparr>ui_messages := ui_messages app @ [user_message]\<rparr>;
          (status, app) =
            update_status (''Processing query with '' @ current_model app @ ''...'') app
      in ((ui_messages app, status, 0, 0, False, None), app))"

definition process_query_try ::
  "(global_config \<Rightarrow> 'l \<Rightarrow> string \<Rightarrow> (exn + string) \<times> 'l) \<Rightarrow>
   (string \<Rightarrow> exn + string list) \<Rightarrow>
   string \<Rightarrow> real \<Rightarrow> ('a, 'l) chat_app \<Rightarrow>
   'a pq_update list \<times> exn option \<times> ('a, 'l) chat_app" where
  "process_query_try llm_query split_text_into_sentences processed_query temperature app =
     (let app = app\<lparr>llm_config := (llm_config app)\<lparr>TEMPERATURE := temperature\<rparr>\<rparr>
      in case get_answer llm_query processed_query app of
           (Inl e, app) \<Rightarrow> ([], Some e, app)
         | (Inr response, app) \<Rightarrow>
             (let assistant_message = \<lparr>role = ''assistant'', content = response\<rparr>;
                  app = app\<lparr>ui_messages := ui_messages app @ [assistant_message]\<rparr>;
                  (status, app) = update_status ''Processing response for TTS...'' app;
                  y2 = (ui_messages app, status, 0, 0, False, None)
              in case split_text_into_sentences response of
                   Inl e \<Rightarrow> ([y2], Some e, app)
                 | Inr new_sentences \<Rightarrow>
                     if new_sentences = [] then
                       (let (status, app) =
                              update_status ''No valid sentences found in response.'' app
                        in ([y2, (ui_messages app, status, 0, 0, False, None)], None, app))
                     else
                       (let start_idx = 0;
                            end_idx = length new_sentences;
                            app = app\<lparr>sentences := new_sentences\<rparr>;
                            (status, app) =
                              update_status
                                (''Starting audio generation for '' @ str_of_nat end_idx @
                                 '' sentences...'') app
                        in ([y2, (ui_messages app, status, start_idx, int end_idx, True, None)],
                            None, app))))"

definition process_query_except ::
  "exn \<Rightarrow> ('a, 'l) chat_app \<Rightarrow> 'a pq_update \<times> ('a, 'l) chat_app" where
  "process_query_except e app =
     (let error_msg = ''Error during query: '' @ str e;
          app = (if ui_messages app = [] \<or> role (last (ui_messages app)) \<noteq> ''assistant''
                 then app\<lparr>ui_messages :=
                            ui_messages app @ [\<lparr>role = ''assistant'', content = ''Error: '' @ str e\<rparr>]\<rparr>
                 else app);
          (status, app) = update_status error_msg app
      in ((ui_messages app, status, 0, 0, False, None), app))"

definition process_query ::
  "(global_config \<Rightarrow> 'l \<Rightarrow> string \<Rightarrow> (exn + string) \<times> 'l) \<Rightarrow>
   (string \<Rightarrow> exn + string list) \<Rightarrow>
   string \<Rightarrow> real \<Rightarrow> ('a, 'l) chat_app \<Rightarrow>
   'a pq_update list \<times> ('a, 'l) chat_app" where
  "process_query llm_query split_text_into_sentences query temperature app =
     (let processed_query = strip query
      in if processed_query = [] then ([], app)
         else
           (let (y1, app) = process_query_begin processed_query app
            in case process_query_try llm_query split_text_into_sentences
                      processed_query temperature app of
                 (ys, None, app) \<Rightarrow> (y1 # ys, app)
               | (ys, Some e, app) \<Rightarrow>
                   (let (y, app) = process_query_except e app
                    in (y1 # ys @ [y], app))))"

section \<open>Sentence playback\<close>

text \<open>
  The generator object returned by \<open>sentence_generator_loop\<close> of the base class is a
  parameter: a state of type \<open>'g\<close> and a function for \<open>next(generator)\<close>, which may change
  the application object and either yields a pair \<open>(active, audio)\<close>, stops, or raises.
\<close>

datatype ('a, 'g) gen_step = GenYield bool "'a option" 'g | GenStop | GenRaise exn

text \<open>
  One tuple yielded by \<open>gradio_sentence_generator_wrapper\<close>, in the order of
  \<open>loop_outputs\<close> in \<open>main\<close>: status, sentence index, active flag, audio.
\<close>

type_synonym 'a loop_update = "string gr_output option \<times> int \<times> bool \<times> 'a option"

definition loop_index :: "'a loop_update \<Rightarrow> int" where
  "loop_index u = (case u of (s, i, act, au) \<Rightarrow> i)"

definition loop_active :: "'a loop_update \<Rightarrow> bool" where
  "loop_active u = (case u of (s, i, act, au) \<Rightarrow> act)"

definition loop_audio :: "'a loop_update \<Rightarrow> 'a option" where
  "loop_audio u = (case u of (s, i, act, au) \<Rightarrow> au)"

text \<open>
  The wrapper is a generator around \<open>while True\<close>, so it produces tuples for as long as
  its consumer asks and the inner generator goes on. The model takes the number \<open>n\<close> of
  tuples the consumer asks for and returns the tuples produced up to then (fewer than
  \<open>n\<close> when the wrapper has finished) with the state reached. Each tuple of the loop
  costs one \<open>next(generator)\<close>.
\<close>

fun wrapper_loop ::
  "('g \<Rightarrow> ('a, 'l) chat_app \<Rightarrow> ('a, 'g) gen_step \<times> ('a, 'l) chat_app) \<Rightarrow>
   nat \<Rightarrow> 'g \<Rightarrow> int \<Rightarrow> ('a, 'l) chat_app \<Rightarrow> 'a loop_update list \<times> ('a, 'l) chat_app" where
  "wrapper_loop generator_next 0 generator next_idx app = ([], app)"
| "wrapper_loop generator_next (Suc n) generator next_idx app =
     (case generator_next generator app of
        (GenYield active audio_tuple generator, app) \<Rightarrow>
          (let next_idx = next_idx + 1;
               y = (Some (Raw (current_status app)), next_idx, active, audio_tuple);
               (ys, app) = wrapper_loop generator_next n generator next_idx app
           in (y # ys, app))
      | (GenStop, app) \<Rightarrow>
          ([(Some (Raw (current_status app)), next_idx, False, None)], app)
      | (GenRaise e, app) \<Rightarrow>
          (let (status, app) = update_status (''Error during audio generation: '' @ str e) app
           in ([(status, next_idx, False, None)], app)))"

definition gradio_sentence_generator_wrapper ::
  "(int \<Rightarrow> int \<Rightarrow> bool \<Rightarrow> real \<Rightarrow> real \<Rightarrow> 'g) \<Rightarrow>
   ('g \<Rightarrow> ('a, 'l) chat_app \<Rightarrow> ('a, 'g) gen_step \<times> ('a, 'l) chat_app) \<Rightarrow>
   nat \<Rightarrow> int \<Rightarrow> int \<Rightarrow> bool \<Rightarrow> real \<Rightarrow> real \<Rightarrow> ('a, 'l) chat_app \<Rightarrow>
   'a loop_update list \<times> ('a, 'l) chat_app" where
  "gradio_sentence_generator_wrapper sentence_generator_loop generator_next n
       start_index end_index active temperature speed_factor app =
     (if \<not> active then
        (take n [(Some (Raw (current_status app)), start_index, False, None)], app)
      else
        (let generator =
               sentence_generator_loop start_index end_index active temperature speed_factor;
             next_idx = start_index
         in wrapper_loop generator_next n generator next_idx app))"

text \<open>
  The number of pairs the inner generator yields within its first \<open>n\<close> calls of
  \<open>next\<close>, from a given generator state and application state.
\<close>

fun generator_items ::
  "('g \<Rightarrow> ('a, 'l) chat_app \<Rightarrow> ('a, 'g) gen_step \<times> ('a, 'l) chat_app) \<Rightarrow>
   nat \<Rightarrow> 'g \<Rightarrow> ('a, 'l) chat_app \<Rightarrow> nat" where
  "generator_items generator_next 0 generator app = 0"
| "generator_items generator_next (Suc n) generator app =
     (case generator_next generator app of
        (GenYield active audio_tuple generator, app) \<Rightarrow>
          Suc (generator_items generator_next n generator app)
      | (GenStop, app) \<Rightarrow> 0
      | (GenRaise e, app) \<Rightarrow> 0)"

section \<open>Session reset and system prompt\<close>

text \<open>
  \<open>clear_session\<close> clears the LLM history when the attributes exist, empties the
  message list, runs the base class's \<open>clear_session\<close> and sets the status. The absent
  collaborators are parameters: whether the LLM object has a \<open>history_manager\<close>, what
  \<open>clear_history\<close> does to it, and the base class's \<open>clear_session\<close>.
\<close>

definition clear_session ::
  "('l \<Rightarrow> bool) \<Rightarrow> ('l \<Rightarrow> 'l) \<Rightarrow> (('a, 'l) chat_app \<Rightarrow> ('a, 'l) chat_app) \<Rightarrow>
   ('a, 'l) chat_app \<Rightarrow>
   (message list gr_output \<times> string gr_output option \<times> 'a option gr_output option \<times> int \<times> bool) \<times>
   ('a, 'l) chat_app" where
  "clear_session has_history_manager clear_history super_clear_session app =
     (let app = (case llm app of
                   None \<Rightarrow> app
                 | Some l \<Rightarrow> if has_history_manager l then app\<lparr>llm := Some (clear_history l)\<rparr>
                             else app);
          app = app\<lparr>ui_messages := []\<rparr>;
          app = super_clear_session app;
          status_update = ''Session cleared. Ready. (Model: '' @ current_model app @
                          '', Voice: '' @ current_voice app @ '')'';
          (chatbot_val, audio_val) = clear_ui app;
          (status, app) = update_status status_update app
      in ((chatbot_val, status, audio_val, 0, False), app))"

text \<open>
  The binding of the clear button in \<open>main\<close>: the five returned values go to the chatbot,
  the status box, the audio player, \<open>sentence_index\<close> and \<open>processing_active\<close>. The first
  three are display components and are returned as they are; the last two are session
  values.
\<close>

definition clear_btn_click ::
  "('l \<Rightarrow> bool) \<Rightarrow> ('l \<Rightarrow> 'l) \<Rightarrow> (('a, 'l) chat_app \<Rightarrow> ('a, 'l) chat_app) \<Rightarrow>
   ('a, 'l) chat_app \<times> session \<Rightarrow>
   (message list gr_output \<times> string gr_output option \<times> 'a option gr_output option) \<times>
   ('a, 'l) chat_app \<times> session" where
  "clear_btn_click has_history_manager clear_history super_clear_session st =
     (case st of (app, sess) \<Rightarrow>
        (case clear_session has_history_manager clear_history super_clear_session app of
           ((chatbot_val, status, audio_val, idx, act), app) \<Rightarrow>
             ((chatbot_val, status, audio_val),
              app, sess\<lparr>sentence_index := idx, processing_active := act\<rparr>)))"

text \<open>
  \<open>update_system_prompt\<close>: the constructor of \<open>AskLLM\<close> is a parameter that returns the
  new object or raises.
\<close>

definition update_system_prompt ::
  "(string \<Rightarrow> global_config \<Rightarrow> exn + 'l) \<Rightarrow> string \<Rightarrow> ('a, 'l) chat_app \<Rightarrow>
   string gr_output option \<times> ('a, 'l) chat_app" where
  "update_system_prompt AskLLM new_system_prompt app =
     (let app = app\<lparr>llm_config := (llm_config app)\<lparr>SYSTEM_MESSAGE := strip new_system_prompt\<rparr>\<rparr>
      in case AskLLM (current_resolved_alias app) (llm_config app) of
           Inr l \<Rightarrow>
             (let app = app\<lparr>llm := Some l\<rparr>;
                  status_update = ''System prompt updated. Model: '' @ current_model app
              in update_status status_update app)
         | Inl e \<Rightarrow>
             (let error_msg = ''Error updating system prompt: '' @ str e;
                  status_update = error_msg
              in update_status status_update app))"

section \<open>Example inputs\<close>

text \<open>
  Concrete inputs on which the theorems below are instantiated: an application object
  with bound components that still holds a sentence and an audio segment of an earlier
  turn, LLM back ends that answer or raise, sentence splitters, an inner generator that
  yields one pair per remaining item and then stops, one that raises at once, a base
  \<open>clear_session\<close> and an \<open>AskLLM\<close> constructor that raises.
\<close>

definition example_app :: "(nat, string list) chat_app" where
  "example_app =
     \<lparr>status_output_component = True, chatbot_component = True, audio_output_component = True,
      current_status = ''Ready'', ui_messages = [],
      sentences = [''Old sentence.''], audio_segments = [7],
      current_model = ''dans'', current_voice = ''maya'',
      current_resolved_alias = ''dans-personalityengine'',
      llm = Some [], llm_config = \<lparr>SYSTEM_MESSAGE = ''Be brief.'', TEMPERATURE = 0.9\<rparr>\<rparr>"

definition example_llm_ok ::
  "global_config \<Rightarrow> string list \<Rightarrow> string \<Rightarrow> (exn + string) \<times> string list" where
  "example_llm_ok cfg l q = (Inr ''Hello there.'', l @ [q])"

definition example_llm_raises ::
  "global_config \<Rightarrow> string list \<Rightarrow> string \<Rightarrow> (exn + string) \<times> string list" where
  "example_llm_raises cfg l q = (Inl (Exception ''timeout''), l)"

definition example_split_none :: "string \<Rightarrow> exn + string list" where
  "example_split_none response = Inr []"

definition example_split_one :: "string \<Rightarrow> exn + string list" where
  "example_split_one response = Inr [response]"

definition example_split_raises :: "string \<Rightarrow> exn + string list" where
  "example_split_raises response = Inl (Exception ''boom'')"

definition example_sentence_generator_loop ::
  "int \<Rightarrow> int \<Rightarrow> bool \<Rightarrow> real \<Rightarrow> real \<Rightarrow> nat list" where
  "example_sentence_generator_loop start_index end_index active temperature speed_factor =
     (if active then [11, 12] else [])"

definition example_generator_next ::
  "nat list \<Rightarrow> (nat, string list) chat_app \<Rightarrow>
   (nat, nat list) gen_step \<times> (nat, string list) chat_app" where
  "example_generator_next g app =
     (case g of
        [] \<Rightarrow> (GenStop, app)
      | x # xs \<Rightarrow> (GenYield True (Some x) xs, app\<lparr>audio_segments := audio_segments app @ [x]\<rparr>))"

definition example_generator_raises ::
  "nat list \<Rightarrow> (nat, string list) chat_app \<Rightarrow>
   (nat, nat list) gen_step \<times> (nat, string list) chat_app" where
  "example_generator_raises g app = (GenRaise (Exception ''tts failed''), app)"

definition example_super_clear_session ::
  "(nat, string list) chat_app \<Rightarrow> (nat, string list) chat_app" where
  "example_super_clear_session app = app\<lparr>sentences := [], audio_segments := []\<rparr>"

definition example_AskLLM_raises :: "string \<Rightarrow> global_config \<Rightarrow> exn + string list" where
  "example_AskLLM_raises alias cfg = Inl (Exception ''no such model'')"

definition example_session :: session where
  "example_session = \<lparr>sentence_index = 2, sentence_end_index = 3, processing_active = True\<rparr>"

section \<open>Basic facts\<close>

lemma update_status_eq:
  "update_status m app =
     (if status_output_component app then Some (Update m) else None, app\<lparr>current_status := m\<rparr>)"
  by (simp add: update_status_def Let_def)

lemma process_query_begin_eq:
  "process_query_begin pq app =
     ((ui_messages app @ [\<lparr>role = ''user'', content = pq\<rparr>],
       if status_output_component app
       then Some (Update (''Processing query with '' @ current_model app @ ''...'')) else None,
       0, 0, False, None),
      app\<lparr>sentences := [], audio_segments := [],
          ui_messages := ui_messages app @ [\<lparr>role = ''user'', content = pq\<rparr>],
          current_status := ''Processing query with '' @ current_model app @ ''...''\<rparr>)"
  by (simp add: process_query_begin_def update_status_eq Let_def)

lemma process_query_except_eq:
  "process_query_except e app =
     (let msgs = (if ui_messages app = [] \<or> role (last (ui_messages app)) \<noteq> ''assistant''
                  then ui_messages app @ [\<lparr>role = ''assistant'', content = ''Error: '' @ str e\<rparr>]
                  else ui_messages app)
      in ((msgs,
           if status_output_component app
           then Some (Update (''Error during query: '' @ str e)) else None,
           0, 0, False, None),
          app\<lparr>ui_messages := msgs, current_status := ''Error during query: '' @ str e\<rparr>))"
  by (simp add: process_query_except_def update_status_eq Let_def)

lemma get_answer_frame:
  "get_answer llm_query q app = (r, app') \<Longrightarrow>
     ui_messages app' = ui_messages app \<and> sentences app' = sentences app \<and>
     audio_segments app' = audio_segments app \<and> current_status app' = current_status app \<and>
     status_output_component app' = status_output_component app \<and>
     current_model app' = current_model app \<and> llm_config app' = llm_config app"
  by (auto simp: get_answer_def Let_def split: option.splits prod.splits)

lemma try_get_answer_raises:
  assumes "get_answer llm_query pq (app\<lparr>llm_config := (llm_config app)\<lparr>TEMPERATURE := t\<rparr>\<rparr>) = (Inl e, app2)"
  shows "process_query_try llm_query split pq t app = ([], Some e, app2)"
  using assms by (simp add: process_query_try_def Let_def)

lemma try_split_raises:
  assumes "get_answer llm_query pq (app\<lparr>llm_config := (llm_config app)\<lparr>TEMPERATURE := t\<rparr>\<rparr>) = (Inr response, app2)"
    and "split response = Inl e"
  shows "process_query_try llm_query split pq t app =
           ([(ui_messages app2 @ [\<lparr>role = ''assistant'', content = response\<rparr>],
              if status_output_component app2
              then Some (Update ''Processing response for TTS...'') else None,
              0, 0, False, None)],
            Some e,
            app2\<lparr>ui_messages := ui_messages app2 @ [\<lparr>role = ''assistant'', content = response\<rparr>],
                 current_status := ''Processing response for TTS...''\<rparr>)"
  using assms by (simp add: process_query_try_def Let_def update_status_eq)

lemma try_no_sentences:
  assumes "get_answer llm_query pq (app\<lparr>llm_config := (llm_config app)\<lparr>TEMPERATURE := t\<rparr>\<rparr>) = (Inr response, app2)"
    and "split response = Inr []"
  shows "process_query_try llm_query split pq t app =
           ([(ui_messages app2 @ [\<lparr>role = ''assistant'', content = response\<rparr>],
              if status_output_component app2
              then Some (Update ''Processing response for TTS...'') else None,
              0, 0, False, None),
             (ui_messages app2 @ [\<lparr>role = ''assistant'', content = response\<rparr>],
              if status_output_component app2
              then Some (Update ''No valid sentences found in response.'') else None,
              0, 0, False, None)],
            None,
            app2\<lparr>ui_messages := ui_messages app2 @ [\<lparr>role = ''assistant'', content = response\<rparr>],
                 current_status := ''No valid sentences found in response.''\<rparr>)"
  using assms by (simp add: process_query_try_def Let_def update_status_eq)

lemma try_sentences:
  assumes "get_answer llm_query pq (app\<lparr>llm_config := (llm_config app)\<lparr>TEMPERATURE := t\<rparr>\<rparr>) = (Inr response, app2)"
    and "split response = Inr new_sentences" and "new_sentences \<noteq> []"
  shows "process_query_try llm_query split pq t app =
           ([(ui_messages app2 @ [\<lparr>role = ''assistant'', content = response\<rparr>],
              if status_output_component app2
              then Some (Update ''Processing response for TTS...'') else None,
              0, 0, False, None),
             (ui_messages app2 @ [\<lparr>role = ''assistant'', content = response\<rparr>],
              if status_output_component app2
              then Some (Update (''Starting audio generation for '' @
                                 str_of_nat (length new_sentences) @ '' sentences...''))
              else None,
              0, int (length new_sentences), True, None)],
            None,
            app2\<lparr>ui_messages := ui_messages app2 @ [\<lparr>role = ''assistant'', content = response\<rparr>],
                 sentences := new_sentences,
                 current_status := ''Starting audio generation for '' @
                                   str_of_nat (length new_sentences) @ '' sentences...''\<rparr>)"
  using assms by (simp add: process_query_try_def Let_def update_status_eq)

text \<open>The four outcomes are the only ones.\<close>

lemma try_cases:
  obtains (llm_raises) e app2 where
      "get_answer llm_query pq (app\<lparr>llm_config := (llm_config app)\<lparr>TEMPERATURE := t\<rparr>\<rparr>) = (Inl e, app2)"
  | (split_raises) response app2 e where
      "get_answer llm_query pq (app\<lparr>llm_config := (llm_config app)\<lparr>TEMPERATURE := t\<rparr>\<rparr>) = (Inr response, app2)"
      "split response = Inl e"
  | (no_sentences) response app2 where
      "get_answer llm_query pq (app\<lparr>llm_config := (llm_config app)\<lparr>TEMPERATURE := t\<rparr>\<rparr>) = (Inr response, app2)"
      "split response = Inr []"
  | (some_sentences) response app2 new_sentences where
      "get_answer llm_query pq (app\<lparr>llm_config := (llm_config app)\<lparr>TEMPERATURE := t\<rparr>\<rparr>) = (Inr response, app2)"
      "split response = Inr new_sentences" "new_sentences \<noteq> []"
proof -
  obtain r app2 where g: "get_answer llm_query pq (app\<lparr>llm_config := (llm_config app)\<lparr>TEMPERATURE := t\<rparr>\<rparr>) = (r, app2)"
    by (cases "get_answer llm_query pq (app\<lparr>llm_config := (llm_config app)\<lparr>TEMPERATURE := t\<rparr>\<rparr>)")
  show thesis
  proof (cases r)
    case (Inl e)
    with g show thesis by (auto intro: llm_raises)
  next
    case (Inr response)
    show thesis
    proof (cases "split response")
      case (Inl e)
      with g Inr show thesis by (auto intro: split_raises)
    next
      case inr: (Inr new_sentences)
      show thesis
      proof (cases "new_sentences = []")
        case True
        with g Inr inr show thesis by (auto intro: no_sentences)
      next
        case False
        with g Inr inr show thesis by (auto intro: some_sentences)
      qed
    qed
  qed
qed

text \<open>Length, indices and last tuple of the playback loop, by induction on the number of tuples asked for.\<close>

lemma wrapper_loop_length:
  "length (fst (wrapper_loop generator_next n generator next_idx app)) =
     (if generator_items generator_next n generator app < n
      then Suc (generator_items generator_next n generator app) else n)"
proof (induction n arbitrary: generator next_idx app)
  case 0
  show ?case by simp
next
  case (Suc n)
  obtain st app1 where nx: "generator_next generator app = (st, app1)"
    by (cases "generator_next generator app")
  show ?case
  proof (cases st)
    case (GenYield act au g1)
    with nx Suc.IH [of g1 "next_idx + 1" app1] show ?thesis
      by (simp add: Let_def case_prod_beta)
  next
    case GenStop
    with nx show ?thesis by simp
  next
    case (GenRaise e)
    with nx show ?thesis by (simp add: update_status_eq)
  qed
qed

lemma wrapper_loop_last:
  "generator_items generator_next n generator app < n \<Longrightarrow>
   \<not> loop_active (last (fst (wrapper_loop generator_next n generator next_idx app))) \<and>
   loop_audio (last (fst (wrapper_loop generator_next n generator next_idx app))) = None \<and>
   loop_index (last (fst (wrapper_loop generator_next n generator next_idx app))) =
     next_idx + int (generator_items generator_next n generator app)"
proof (induction n arbitrary: generator next_idx app)
  case 0
  then show ?case by simp
next
  case (Suc n)
  obtain st app1 where nx: "generator_next generator app = (st, app1)"
    by (cases "generator_next generator app")
  show ?case
  proof (cases st)
    case (GenYield act au g1)
    with Suc.prems nx have lt: "generator_items generator_next n g1 app1 < n"
      by simp
    have ne: "fst (wrapper_loop generator_next n g1 (next_idx + 1) app1) \<noteq> []"
      using wrapper_loop_length [of generator_next n g1 "next_idx + 1" app1] lt
      by (auto simp del: length_0_conv simp add: length_0_conv [symmetric])
    from Suc.IH [OF lt, of "next_idx + 1"] nx GenYield ne show ?thesis
      by (simp add: Let_def case_prod_beta)
  next
    case GenStop
    with nx show ?thesis by (simp add: loop_active_def loop_audio_def loop_index_def)
  next
    case (GenRaise e)
    with nx show ?thesis
      by (simp add: update_status_eq loop_active_def loop_audio_def loop_index_def)
  qed
qed

lemma example_app_simps:
  "status_output_component example_app" "ui_messages example_app = []"
  "llm example_app = Some []" "current_model example_app = ''dans''"
  by (simp_all add: example_app_def)

lemma strip_hi: "strip '' hi '' = ''hi''"
  by (simp add: strip_def is_space_def)

section \<open>Empty queries\<close>

text \<open>
  Claim C5. For every query whose stripped text is empty, \<open>process_query\<close> is a no-op:
  it yields no tuple and returns the application object as it was, so \<open>ui_messages\<close>,
  \<open>current_status\<close>, \<open>sentences\<close> and \<open>audio_segments\<close> are unchanged.
\<close>

theorem process_query_empty_is_noop:
  assumes "strip query = []"
  shows "process_query llm_query split_text_into_sentences query temperature app = ([], app)"
  using assms by (simp add: process_query_def)

theorem process_query_empty_is_noop_witness:
  "strip [CHR 0x20, CHR 0x09, CHR 0x0A] = [] \<and>
   process_query example_llm_ok example_split_one [CHR 0x20, CHR 0x09, CHR 0x0A] 0.7 example_app =
     ([], example_app)"
proof -
  have h: "strip [CHR 0x20, CHR 0x09, CHR 0x0A] = []"
    by (simp add: strip_def is_space_def)
  show ?thesis
    using h process_query_empty_is_noop [OF h, of example_llm_ok example_split_one "0.7" example_app]
    by simp
qed

section \<open>Playback with the active flag false\<close>

text \<open>
  Claim C6. Called with the active flag false, \<open>gradio_sentence_generator_wrapper\<close>
  yields exactly one tuple \<open>(current_status, start_index, False, None)\<close> however many the
  consumer asks for, and leaves the state as it was. The result is the same for every
  \<open>sentence_generator_loop\<close> and every inner generator: neither is consulted, and no
  audio is produced.
\<close>

theorem wrapper_inactive_single_tuple:
  "gradio_sentence_generator_wrapper sentence_generator_loop generator_next (Suc n)
       start_index end_index False temperature speed_factor app =
     ([(Some (Raw (current_status app)), start_index, False, None)], app)"
  by (simp add: gradio_sentence_generator_wrapper_def)

section \<open>An exception from the LLM\<close>

text \<open>
  Claim C1. For every query whose stripped text is non-empty, if \<open>get_answer\<close> raises
  \<open>e\<close>, then \<open>process_query\<close> still runs to its end: it yields two tuples, the message list
  grows by the user message and exactly one assistant message \<open>Error: e\<close>, and the last
  tuple carries that list, the status \<open>Error during query: e\<close>, indices 0 and 0,
  active = False and no audio. \<open>current_status\<close> holds the error status; in the tuple it
  is what \<open>update_status\<close> returns, \<open>gr.update\<close> of it when the status box is bound and
  \<open>None\<close> when it is not.
\<close>

theorem process_query_llm_error:
  assumes nonempty: "strip query \<noteq> []"
    and raises: "fst (get_answer llm_query (strip query)
                   (app\<lparr>llm_config := (llm_config app)\<lparr>TEMPERATURE := temperature\<rparr>\<rparr>)) = Inl e"
  shows "(let r = process_query llm_query split_text_into_sentences query temperature app;
              err = \<lparr>role = ''assistant'', content = ''Error: '' @ str e\<rparr>;
              msgs = ui_messages app @ [\<lparr>role = ''user'', content = strip query\<rparr>, err];
              status = (if status_output_component app
                        then Some (Update (''Error during query: '' @ str e)) else None)
          in length (fst r) = 2 \<and>
             last (fst r) = (msgs, status, 0, 0, False, None) \<and>
             ui_messages (snd r) = msgs \<and>
             current_status (snd r) = ''Error during query: '' @ str e)"
proof -
  let ?app0 = "snd (process_query_begin (strip query) app)"
  obtain r app2 where g: "get_answer llm_query (strip query)
      (?app0\<lparr>llm_config := (llm_config ?app0)\<lparr>TEMPERATURE := temperature\<rparr>\<rparr>) = (r, app2)"
    by (cases "get_answer llm_query (strip query)
      (?app0\<lparr>llm_config := (llm_config ?app0)\<lparr>TEMPERATURE := temperature\<rparr>\<rparr>)")
  have r: "r = Inl e"
    using raises g
    by (auto simp: get_answer_def process_query_begin_eq Let_def split: option.splits prod.splits)
  have fr: "ui_messages app2 = ui_messages app @ [\<lparr>role = ''user'', content = strip query\<rparr>]"
           "status_output_component app2 = status_output_component app"
    using get_answer_frame [OF g] by (simp_all add: process_query_begin_eq)
  have t: "process_query_try llm_query split_text_into_sentences (strip query) temperature ?app0 =
             ([], Some e, app2)"
    using g r by (simp add: try_get_answer_raises)
  show ?thesis
    using nonempty t fr
    by (simp add: process_query_def Let_def case_prod_beta process_query_except_eq)
qed

theorem process_query_llm_error_witness:
  "strip '' hi '' \<noteq> [] \<and>
   fst (get_answer example_llm_raises (strip '' hi '')
          (example_app\<lparr>llm_config := (llm_config example_app)\<lparr>TEMPERATURE := 0.7\<rparr>\<rparr>)) =
     Inl (Exception ''timeout'') \<and>
   last (fst (process_query example_llm_raises example_split_one '' hi '' 0.7 example_app)) =
     ([\<lparr>role = ''user'', content = ''hi''\<rparr>,
       \<lparr>role = ''assistant'', content = ''Error: timeout''\<rparr>],
      Some (Update ''Error during query: timeout''), 0, 0, False, None) \<and>
   fst (get_answer example_llm_raises (strip '' hi '')
          (example_app\<lparr>status_output_component := False,
                        llm_config := (llm_config example_app)\<lparr>TEMPERATURE := 0.7\<rparr>\<rparr>)) =
     Inl (Exception ''timeout'') \<and>
   last (fst (process_query example_llm_raises example_split_one '' hi '' 0.7
                (example_app\<lparr>status_output_component := False\<rparr>))) =
     ([\<lparr>role = ''user'', content = ''hi''\<rparr>,
       \<lparr>role = ''assistant'', content = ''Error: timeout''\<rparr>],
      None, 0, 0, False, None)"
proof -
  have h1: "strip '' hi '' \<noteq> []"
    by (simp add: strip_hi)
  have h2: "fst (get_answer example_llm_raises (strip '' hi '')
          (example_app\<lparr>llm_config := (llm_config example_app)\<lparr>TEMPERATURE := 0.7\<rparr>\<rparr>)) =
     Inl (Exception ''timeout'')"
    by (simp add: get_answer_def example_llm_raises_def example_app_simps)
  have h3: "fst (get_answer example_llm_raises (strip '' hi '')
          (example_app\<lparr>status_output_component := False,
                        llm_config := (llm_config example_app)\<lparr>TEMPERATURE := 0.7\<rparr>\<rparr>)) =
     Inl (Exception ''timeout'')"
    by (simp add: get_answer_def example_llm_raises_def example_app_simps)
  have h3': "fst (get_answer example_llm_raises (strip '' hi '')
          ((example_app\<lparr>status_output_component := False\<rparr>)
             \<lparr>llm_config := (llm_config (example_app\<lparr>status_output_component := False\<rparr>))
                              \<lparr>TEMPERATURE := 0.7\<rparr>\<rparr>)) =
     Inl (Exception ''timeout'')"
    using h3 by simp
  show ?thesis
    using h1 h2 h3
      process_query_llm_error [where split_text_into_sentences = example_split_one, OF h1 h2]
      process_query_llm_error [where split_text_into_sentences = example_split_one, OF h1 h3']
    by (simp add: Let_def strip_hi example_app_simps)
qed

section \<open>Answers that reach the sentence splitter\<close>

lemma get_answer_fst_cong:
  "llm a = llm b \<Longrightarrow> llm_config a = llm_config b \<Longrightarrow>
   fst (get_answer llm_query q a) = fst (get_answer llm_query q b)"
  by (simp add: get_answer_def Let_def case_prod_beta split: option.splits)

text \<open>The call of \<open>get_answer\<close> inside \<open>process_query\<close>, seen from the state before the query.\<close>

lemma get_answer_in_process_query:
  assumes "fst (get_answer llm_query pq
                  (app\<lparr>llm_config := (llm_config app)\<lparr>TEMPERATURE := t\<rparr>\<rparr>)) = r"
  obtains app2 where
    "get_answer llm_query pq
       ((snd (process_query_begin pq app))
          \<lparr>llm_config := (llm_config (snd (process_query_begin pq app)))\<lparr>TEMPERATURE := t\<rparr>\<rparr>) =
     (r, app2)"
    "ui_messages app2 = ui_messages app @ [\<lparr>role = ''user'', content = pq\<rparr>]"
    "status_output_component app2 = status_output_component app"
    "sentences app2 = []" "audio_segments app2 = []"
proof -
  let ?b = "(snd (process_query_begin pq app))
          \<lparr>llm_config := (llm_config (snd (process_query_begin pq app)))\<lparr>TEMPERATURE := t\<rparr>\<rparr>"
  obtain r' app2 where g: "get_answer llm_query pq ?b = (r', app2)"
    by (cases "get_answer llm_query pq ?b")
  have "fst (get_answer llm_query pq ?b) =
        fst (get_answer llm_query pq (app\<lparr>llm_config := (llm_config app)\<lparr>TEMPERATURE := t\<rparr>\<rparr>))"
    by (rule get_answer_fst_cong) (simp_all add: process_query_begin_eq)
  with g assms have "r' = r" by simp
  moreover from get_answer_frame [OF g]
  have "ui_messages app2 = ui_messages app @ [\<lparr>role = ''user'', content = pq\<rparr>]"
    "status_output_component app2 = status_output_component app"
    "sentences app2 = []" "audio_segments app2 = []"
    by (simp_all add: process_query_begin_eq)
  ultimately show thesis using g that by simp
qed

text \<open>
  Claim C4. For every query whose stripped text is non-empty and whose response splits
  into no sentence, \<open>process_query\<close> yields three tuples, the last of which carries the
  status \<open>No valid sentences found in response.\<close>, indices 0 and 0, active = False and no
  audio; no tuple of the turn carries audio, neither one of \<open>process_query\<close> nor one of
  the playback wrapper started afterwards from the last tuple's indices and flag.
  \<open>current_status\<close> holds the status; in the tuple it is what \<open>update_status\<close> returns,
  \<open>gr.update\<close> of it when the status box is bound and \<open>None\<close> when it is not.
\<close>

theorem process_query_no_sentences:
  assumes nonempty: "strip query \<noteq> []"
    and answer: "fst (get_answer llm_query (strip query)
                   (app\<lparr>llm_config := (llm_config app)\<lparr>TEMPERATURE := temperature\<rparr>\<rparr>)) =
                 Inr response"
    and split: "split_text_into_sentences response = Inr []"
  shows "(let r = process_query llm_query split_text_into_sentences query temperature app;
              msgs = ui_messages app @ [\<lparr>role = ''user'', content = strip query\<rparr>,
                                        \<lparr>role = ''assistant'', content = response\<rparr>];
              status = (if status_output_component app
                        then Some (Update ''No valid sentences found in response.'') else None)
          in length (fst r) = 3 \<and>
             last (fst r) = (msgs, status, 0, 0, False, None) \<and>
             current_status (snd r) = ''No valid sentences found in response.'' \<and>
             (\<forall>y \<in> set (fst r). pq_audio y = None) \<and>
             (\<forall>w \<in> set (fst (gradio_sentence_generator_wrapper sentence_generator_loop
                                   generator_next n (pq_start (last (fst r)))
                                   (pq_end (last (fst r))) (pq_active (last (fst r)))
                                   temperature speed_factor (snd r))).
                loop_audio w = None))"
proof -
  from answer obtain app2 where
    g: "get_answer llm_query (strip query)
          ((snd (process_query_begin (strip query) app))
             \<lparr>llm_config := (llm_config (snd (process_query_begin (strip query) app)))
                               \<lparr>TEMPERATURE := temperature\<rparr>\<rparr>) = (Inr response, app2)"
    and fr: "ui_messages app2 = ui_messages app @ [\<lparr>role = ''user'', content = strip query\<rparr>]"
      "status_output_component app2 = status_output_component app"
    by (rule get_answer_in_process_query)
  have pq: "process_query llm_query split_text_into_sentences query temperature app =
          (fst (process_query_begin (strip query) app) #
           fst (process_query_try llm_query split_text_into_sentences (strip query) temperature
                  (snd (process_query_begin (strip query) app))),
           snd (snd (process_query_try llm_query split_text_into_sentences (strip query) temperature
                  (snd (process_query_begin (strip query) app)))))"
    using nonempty by (simp add: process_query_def Let_def case_prod_beta try_no_sentences [where split = split_text_into_sentences, OF g split])
  show ?thesis
    unfolding pq try_no_sentences [where split = split_text_into_sentences, OF g split]
    using fr
    by (cases n) (simp_all add: Let_def process_query_begin_eq pq_audio_def pq_start_def pq_end_def
          pq_active_def gradio_sentence_generator_wrapper_def loop_audio_def)
qed

theorem process_query_no_sentences_witness:
  "strip '' hi '' \<noteq> [] \<and>
   fst (get_answer example_llm_ok (strip '' hi '')
          (example_app\<lparr>llm_config := (llm_config example_app)\<lparr>TEMPERATURE := 0.7\<rparr>\<rparr>)) =
     Inr ''Hello there.'' \<and>
   example_split_none ''Hello there.'' = Inr [] \<and>
   last (fst (process_query example_llm_ok example_split_none '' hi '' 0.7 example_app)) =
     ([\<lparr>role = ''user'', content = ''hi''\<rparr>,
       \<lparr>role = ''assistant'', content = ''Hello there.''\<rparr>],
      Some (Update ''No valid sentences found in response.''), 0, 0, False, None) \<and>
   fst (get_answer example_llm_ok (strip '' hi '')
          (example_app\<lparr>status_output_component := False,
                        llm_config := (llm_config example_app)\<lparr>TEMPERATURE := 0.7\<rparr>\<rparr>)) =
     Inr ''Hello there.'' \<and>
   last (fst (process_query example_llm_ok example_split_none '' hi '' 0.7
                (example_app\<lparr>status_output_component := False\<rparr>))) =
     ([\<lparr>role = ''user'', content = ''hi''\<rparr>,
       \<lparr>role = ''assistant'', content = ''Hello there.''\<rparr>],
      None, 0, 0, False, None)"
proof -
  have h1: "strip '' hi '' \<noteq> []"
    by (simp add: strip_hi)
  have h2: "fst (get_answer example_llm_ok (strip '' hi '')
          (example_app\<lparr>llm_config := (llm_config example_app)\<lparr>TEMPERATURE := 0.7\<rparr>\<rparr>)) =
     Inr ''Hello there.''"
    by (simp add: get_answer_def example_llm_ok_def example_app_simps)
  have h3: "fst (get_answer example_llm_ok (strip '' hi '')
          (example_app\<lparr>status_output_component := False,
                        llm_config := (llm_config example_app)\<lparr>TEMPERATURE := 0.7\<rparr>\<rparr>)) =
     Inr ''Hello there.''"
    by (simp add: get_answer_def example_llm_ok_def example_app_simps)
  have h3': "fst (get_answer example_llm_ok (strip '' hi '')
          ((example_app\<lparr>status_output_component := False\<rparr>)
             \<lparr>llm_config := (llm_config (example_app\<lparr>status_output_component := False\<rparr>))
                              \<lparr>TEMPERATURE := 0.7\<rparr>\<rparr>)) =
     Inr ''Hello there.''"
    using h3 by simp
  have h4: "example_split_none ''Hello there.'' = Inr []"
    by (simp add: example_split_none_def)
  show ?thesis
    using h1 h2 h3 h4
      process_query_no_sentences [where split_text_into_sentences = example_split_none
          and sentence_generator_loop = example_sentence_generator_loop
          and generator_next = example_generator_next and n = 3 and speed_factor = "1.2",
        OF h1 h2 h4]
      process_query_no_sentences [where split_text_into_sentences = example_split_none
          and sentence_generator_loop = example_sentence_generator_loop
          and generator_next = example_generator_next and n = 3 and speed_factor = "1.2",
        OF h1 h3' h4]
    by (simp add: Let_def strip_hi example_app_simps)
qed

text \<open>
  Claim C8. For every query whose stripped text is non-empty and whose response splits
  into \<open>n \<ge> 1\<close> sentences, \<open>process_query\<close> stores exactly these sentences as the shared
  list, and its last tuple sets the cursor range to \<open>(0, n)\<close> and the active flag to true
  and carries no audio.
\<close>

theorem process_query_sentences_ready:
  assumes nonempty: "strip query \<noteq> []"
    and answer: "fst (get_answer llm_query (strip query)
                   (app\<lparr>llm_config := (llm_config app)\<lparr>TEMPERATURE := temperature\<rparr>\<rparr>)) =
                 Inr response"
    and split: "split_text_into_sentences response = Inr new_sentences"
    and some: "new_sentences \<noteq> []"
  shows "(let r = process_query llm_query split_text_into_sentences query temperature app
          in length (fst r) = 3 \<and>
             pq_start (last (fst r)) = 0 \<and>
             pq_end (last (fst r)) = int (length new_sentences) \<and>
             pq_active (last (fst r)) \<and>
             pq_audio (last (fst r)) = None \<and>
             sentences (snd r) = new_sentences)"
proof -
  from answer obtain app2 where
    g: "get_answer llm_query (strip query)
          ((snd (process_query_begin (strip query) app))
             \<lparr>llm_config := (llm_config (snd (process_query_begin (strip query) app)))
                               \<lparr>TEMPERATURE := temperature\<rparr>\<rparr>) = (Inr response, app2)"
    by (rule get_answer_in_process_query)
  have pq: "process_query llm_query split_text_into_sentences query temperature app =
          (fst (process_query_begin (strip query) app) #
           fst (process_query_try llm_query split_text_into_sentences (strip query) temperature
                  (snd (process_query_begin (strip query) app))),
           snd (snd (process_query_try llm_query split_text_into_sentences (strip query) temperature
                  (snd (process_query_begin (strip query) app)))))"
    using nonempty
    by (simp add: process_query_def Let_def case_prod_beta try_sentences [where split = split_text_into_sentences, OF g split some])
  show ?thesis
    unfolding pq try_sentences [where split = split_text_into_sentences, OF g split some]
    by (simp add: Let_def pq_audio_def pq_start_def pq_end_def pq_active_def)
qed

theorem process_query_sentences_ready_witness:
  "strip '' hi '' \<noteq> [] \<and>
   fst (get_answer example_llm_ok (strip '' hi '')
          (example_app\<lparr>llm_config := (llm_config example_app)\<lparr>TEMPERATURE := 0.7\<rparr>\<rparr>)) =
     Inr ''Hello there.'' \<and>
   example_split_one ''Hello there.'' = Inr [''Hello there.''] \<and>
   [''Hello there.''] \<noteq> [] \<and>
   pq_end (last (fst (process_query example_llm_ok example_split_one '' hi '' 0.7 example_app))) = 1 \<and>
   pq_active (last (fst (process_query example_llm_ok example_split_one '' hi '' 0.7 example_app))) \<and>
   sentences (snd (process_query example_llm_ok example_split_one '' hi '' 0.7 example_app)) =
     [''Hello there.'']"
proof -
  have h1: "strip '' hi '' \<noteq> []"
    by (simp add: strip_hi)
  have h2: "fst (get_answer example_llm_ok (strip '' hi '')
          (example_app\<lparr>llm_config := (llm_config example_app)\<lparr>TEMPERATURE := 0.7\<rparr>\<rparr>)) =
     Inr ''Hello there.''"
    by (simp add: get_answer_def example_llm_ok_def example_app_simps)
  have h3: "example_split_one ''Hello there.'' = Inr [''Hello there.'']"
    by (simp add: example_split_one_def)
  have h4: "[''Hello there.''] \<noteq> []"
    by simp
  show ?thesis
    using h1 h2 h3 process_query_sentences_ready [where split_text_into_sentences = example_split_one,
        OF h1 h2 h3 h4]
    by (simp add: Let_def)
qed

section \<open>The cursor during playback\<close>

lemma generator_items_le: "generator_items generator_next n generator app \<le> n"
proof (induction n arbitrary: generator app)
  case 0
  show ?case by simp
next
  case (Suc n)
  obtain st app1 where nx: "generator_next generator app = (st, app1)"
    by (cases "generator_next generator app")
  show ?case
  proof (cases st)
    case (GenYield act au g1)
    with nx Suc.IH [of g1 app1] show ?thesis by simp
  next
    case GenStop
    with nx show ?thesis by simp
  next
    case (GenRaise e)
    with nx show ?thesis by simp
  qed
qed

lemma map_upt_from_one:
  "map f [Suc 0..<Suc (Suc m)] = f (Suc 0) # map (\<lambda>k. f (Suc k)) [Suc 0..<Suc m]"
proof -
  have "[Suc 0..<Suc (Suc m)] = Suc 0 # map Suc [Suc 0..<Suc m]"
    by (simp add: map_Suc_upt upt_conv_Cons del: upt_Suc)
  then show ?thesis
    by (simp add: comp_def del: upt_Suc)
qed

text \<open>
  The indices of all tuples of the loop: one per pair of the inner generator, counting up
  from \<open>next_idx + 1\<close>, and, once the generator has stopped or raised, a closing tuple
  with the index reached.
\<close>

lemma wrapper_loop_indices:
  "map loop_index (fst (wrapper_loop generator_next n generator next_idx app)) =
     map (\<lambda>k. next_idx + int k) [1..<Suc (generator_items generator_next n generator app)] @
     (if generator_items generator_next n generator app < n
      then [next_idx + int (generator_items generator_next n generator app)] else [])"
proof (induction n arbitrary: generator next_idx app)
  case 0
  show ?case by simp
next
  case (Suc n)
  obtain st app1 where nx: "generator_next generator app = (st, app1)"
    by (cases "generator_next generator app")
  show ?case
  proof (cases st)
    case (GenYield act au g1)
    from nx GenYield Suc.IH [of g1 "next_idx + 1" app1] show ?thesis
      by (simp add: Let_def case_prod_beta loop_index_def map_upt_from_one add.assoc
          del: upt_Suc)
  next
    case GenStop
    with nx show ?thesis by (simp add: loop_index_def)
  next
    case (GenRaise e)
    with nx show ?thesis by (simp add: update_status_eq loop_index_def)
  qed
qed

text \<open>
  Claim C7, as stated, says that with the active flag initially true the \<open>k\<close>-th tuple
  yielded carries the index \<open>start_index + k\<close> and that the index is strictly increasing.
  The tuple that the wrapper yields after the inner generator has stopped is the next
  tuple of the same run and repeats the last index: with two pairs and
  \<open>start_index = 0\<close> the indices are 1, 2, 2, so the third tuple does not carry 3 and is
  not above the second.
\<close>

theorem wrapper_closing_tuple_repeats_index_counterexample:
  "length (fst (gradio_sentence_generator_wrapper example_sentence_generator_loop
                  example_generator_next 3 0 2 True 0.7 1.2 example_app)) = 3 \<and>
   loop_index (fst (gradio_sentence_generator_wrapper example_sentence_generator_loop
                      example_generator_next 3 0 2 True 0.7 1.2 example_app) ! 2) \<noteq> 0 + 3 \<and>
   \<not> loop_index (fst (gradio_sentence_generator_wrapper example_sentence_generator_loop
                        example_generator_next 3 0 2 True 0.7 1.2 example_app) ! 1) <
     loop_index (fst (gradio_sentence_generator_wrapper example_sentence_generator_loop
                        example_generator_next 3 0 2 True 0.7 1.2 example_app) ! 2)"
  by (simp add: gradio_sentence_generator_wrapper_def example_sentence_generator_loop_def
      example_generator_next_def numeral_3_eq_3 loop_index_def Let_def)

text \<open>
  Claim C7, amended. With the active flag initially true, let \<open>m\<close> be the number of pairs
  the inner generator yields within the \<open>n\<close> tuples asked of the wrapper. The wrapper
  yields one tuple per pair, the \<open>k\<close>-th (counting from 1) with index \<open>start_index + k\<close>,
  so over these \<open>m\<close> tuples the index advances by exactly one each time and is strictly
  increasing; if the generator has stopped or raised (\<open>m < n\<close>) exactly one closing tuple
  follows, which repeats the index \<open>start_index + m\<close>, and otherwise nothing follows.
\<close>

theorem wrapper_indices:
  "(let m = generator_items generator_next n
              (sentence_generator_loop start_index end_index True temperature speed_factor) app;
        ys = fst (gradio_sentence_generator_wrapper sentence_generator_loop generator_next n
                    start_index end_index True temperature speed_factor app)
    in map loop_index ys =
         map (\<lambda>k. start_index + int k) [1..<Suc m] @
         (if m < n then [start_index + int m] else []) \<and>
       sorted_wrt (<) (take m (map loop_index ys)))"
proof -
  let ?g = "sentence_generator_loop start_index end_index True temperature speed_factor"
  let ?m = "generator_items generator_next n ?g app"
  have idx: "map loop_index (fst (wrapper_loop generator_next n ?g start_index app)) =
       map (\<lambda>k. start_index + int k) [1..<Suc ?m] @
       (if ?m < n then [start_index + int ?m] else [])"
    by (rule wrapper_loop_indices)
  have "sorted_wrt (<) (map (\<lambda>k. start_index + int k) [1..<Suc ?m])"
    by (simp add: sorted_wrt_map del: upt_Suc)
  then have "sorted_wrt (<) (take ?m (map loop_index (fst (wrapper_loop generator_next n ?g start_index app))))"
    unfolding idx by (simp del: upt_Suc)
  with idx show ?thesis
    by (simp add: gradio_sentence_generator_wrapper_def Let_def del: upt_Suc)
qed

theorem wrapper_indices_witness:
  "generator_items example_generator_next 3
     (example_sentence_generator_loop 0 2 True 0.7 1.2) example_app = 2 \<and>
   map loop_index (fst (gradio_sentence_generator_wrapper example_sentence_generator_loop
                          example_generator_next 3 0 2 True 0.7 1.2 example_app)) = [1, 2, 2] \<and>
   generator_items example_generator_next 2
     (example_sentence_generator_loop 0 2 True 0.7 1.2) example_app = 2 \<and>
   map loop_index (fst (gradio_sentence_generator_wrapper example_sentence_generator_loop
                          example_generator_next 2 0 2 True 0.7 1.2 example_app)) = [1, 2]"
proof -
  have m3: "generator_items example_generator_next 3
     (example_sentence_generator_loop 0 2 True 0.7 1.2) example_app = 2"
    by (simp add: numeral_3_eq_3 example_sentence_generator_loop_def example_generator_next_def)
  have m2: "generator_items example_generator_next 2
     (example_sentence_generator_loop 0 2 True 0.7 1.2) example_app = 2"
    by (simp add: numeral_2_eq_2 example_sentence_generator_loop_def example_generator_next_def)
  have u: "[Suc 0..<3] = [Suc 0, 2]"
    by (simp add: upt_rec)
  show ?thesis
    using m3 m2
      wrapper_indices [where sentence_generator_loop = example_sentence_generator_loop
        and generator_next = example_generator_next and n = 3 and start_index = 0
        and end_index = 2 and temperature = "0.7" and speed_factor = "1.2" and app = example_app]
      wrapper_indices [where sentence_generator_loop = example_sentence_generator_loop
        and generator_next = example_generator_next and n = 2 and start_index = 0
        and end_index = 2 and temperature = "0.7" and speed_factor = "1.2" and app = example_app]
    by (simp add: Let_def u del: upt_Suc)
qed

section \<open>Error paths and the end of playback\<close>

text \<open>
  Claim C3, as stated, says that whenever the error handler of \<open>process_query\<close> runs,
  the last entry of \<open>ui_messages\<close> is an assistant entry carrying the error text. The
  handler appends its entry only when the list is empty or does not end in an assistant
  entry. When the exception comes after the answer has been appended (here the sentence
  splitter raises \<open>boom\<close>), the handler runs and the last entry is the answer
  \<open>Hello there.\<close>, which does not carry the error text.
\<close>

theorem error_entry_without_error_text_counterexample:
  "fst (snd (process_query_try example_llm_ok example_split_raises (strip '' hi '') 0.7
               (snd (process_query_begin (strip '' hi '') example_app)))) =
     Some (Exception ''boom'') \<and>
   last (ui_messages (snd (process_query example_llm_ok example_split_raises '' hi '' 0.7
                             example_app))) =
     \<lparr>role = ''assistant'', content = ''Hello there.''\<rparr> \<and>
   content (last (ui_messages (snd (process_query example_llm_ok example_split_raises '' hi '' 0.7
                                      example_app)))) \<noteq> ''Error: boom''"
  by (simp add: strip_hi process_query_def process_query_begin_eq process_query_try_def
      process_query_except_eq get_answer_def example_llm_ok_def example_split_raises_def
      update_status_eq example_app_def Let_def)

text \<open>
  Claim C3, amended. If the body of the \<open>try\<close> in \<open>process_query\<close> ends with an exception
  \<open>e\<close>, exactly one more tuple is yielded, with active = False and no audio, and the
  message list then ends in an assistant entry: the entry \<open>Error: e\<close> appended by the
  handler when the exception came from \<open>get_answer\<close> (no tuple was yielded inside the
  \<open>try\<close>), and otherwise the answer that was already appended, the list being left as it
  was. If the inner generator stops or raises within the \<open>n\<close> tuples asked of the
  playback wrapper, the wrapper yields exactly one tuple after the generator's pairs,
  and that last tuple has active = False and no audio.
\<close>

theorem error_paths_end_inactive:
  "(strip query \<noteq> [] \<and>
    process_query_try llm_query split_text_into_sentences (strip query) temperature
      (snd (process_query_begin (strip query) app)) = (ys, Some e, app_exc) \<longrightarrow>
    (let r = process_query llm_query split_text_into_sentences query temperature app;
         user = \<lparr>role = ''user'', content = strip query\<rparr>
     in fst r = fst (process_query_begin (strip query) app) # ys @ [last (fst r)] \<and>
        \<not> pq_active (last (fst r)) \<and>
        pq_audio (last (fst r)) = None \<and>
        role (last (ui_messages (snd r))) = ''assistant'' \<and>
        (ys = [] \<longrightarrow>
           ui_messages (snd r) =
             ui_messages app @ [user, \<lparr>role = ''assistant'', content = ''Error: '' @ str e\<rparr>]) \<and>
        (ys \<noteq> [] \<longrightarrow>
           (\<exists>response.
              fst (get_answer llm_query (strip query)
                     (app\<lparr>llm_config := (llm_config app)\<lparr>TEMPERATURE := temperature\<rparr>\<rparr>)) =
                Inr response \<and>
              ui_messages (snd r) =
                ui_messages app @ [user, \<lparr>role = ''assistant'', content = response\<rparr>])))) \<and>
   (generator_items generator_next n
      (sentence_generator_loop start_index end_index True temperature speed_factor) app' < n \<longrightarrow>
    (let zs = fst (gradio_sentence_generator_wrapper sentence_generator_loop generator_next n
                     start_index end_index True temperature speed_factor app')
     in length zs =
          Suc (generator_items generator_next n
                 (sentence_generator_loop start_index end_index True temperature speed_factor) app') \<and>
        \<not> loop_active (last zs) \<and>
        loop_audio (last zs) = None))"
proof (intro conjI impI)
  assume a: "strip query \<noteq> [] \<and>
    process_query_try llm_query split_text_into_sentences (strip query) temperature
      (snd (process_query_begin (strip query) app)) = (ys, Some e, app_exc)"
  let ?app0 = "snd (process_query_begin (strip query) app)"
  let ?appt = "app\<lparr>llm_config := (llm_config app)\<lparr>TEMPERATURE := temperature\<rparr>\<rparr>"
  obtain r0 where r0: "fst (get_answer llm_query (strip query) ?appt) = r0"
    by simp
  from r0 obtain app2 where
    g: "get_answer llm_query (strip query)
          (?app0\<lparr>llm_config := (llm_config ?app0)\<lparr>TEMPERATURE := temperature\<rparr>\<rparr>) = (r0, app2)"
    and fr: "ui_messages app2 = ui_messages app @ [\<lparr>role = ''user'', content = strip query\<rparr>]"
    by (rule get_answer_in_process_query)
  have pq: "process_query llm_query split_text_into_sentences query temperature app =
          (fst (process_query_begin (strip query) app) # ys @ [fst (process_query_except e app_exc)],
           snd (process_query_except e app_exc))"
    using a by (simp add: process_query_def Let_def case_prod_beta)
  show "let r = process_query llm_query split_text_into_sentences query temperature app;
         user = \<lparr>role = ''user'', content = strip query\<rparr>
     in fst r = fst (process_query_begin (strip query) app) # ys @ [last (fst r)] \<and>
        \<not> pq_active (last (fst r)) \<and>
        pq_audio (last (fst r)) = None \<and>
        role (last (ui_messages (snd r))) = ''assistant'' \<and>
        (ys = [] \<longrightarrow>
           ui_messages (snd r) =
             ui_messages app @ [user, \<lparr>role = ''assistant'', content = ''Error: '' @ str e\<rparr>]) \<and>
        (ys \<noteq> [] \<longrightarrow>
           (\<exists>response.
              fst (get_answer llm_query (strip query) ?appt) = Inr response \<and>
              ui_messages (snd r) =
                ui_messages app @ [user, \<lparr>role = ''assistant'', content = response\<rparr>]))"
  proof (cases r0)
    case (Inl e')
    with g a have "ys = []" "e' = e" "app_exc = app2"
      by (simp_all add: try_get_answer_raises [where split = split_text_into_sentences])
    with fr show ?thesis
      unfolding pq
      by (simp add: Let_def process_query_except_eq pq_active_def pq_audio_def)
  next
    case (Inr response)
    note g' = g [unfolded Inr]
    show ?thesis
    proof (cases "split_text_into_sentences response")
      case (Inl e')
      from a try_split_raises [where split = split_text_into_sentences, OF g' Inl]
      have "ys \<noteq> []" "ui_messages app_exc = ui_messages app2 @ [\<lparr>role = ''assistant'', content = response\<rparr>]"
        by auto
      with fr r0 Inr show ?thesis
        unfolding pq
        by (simp add: Let_def process_query_except_eq pq_active_def pq_audio_def)
    next
      case inr: (Inr new_sentences)
      show ?thesis
      proof (cases "new_sentences = []")
        case True
        with a try_no_sentences [where split = split_text_into_sentences, OF g'] inr
        show ?thesis by simp
      next
        case False
        with a try_sentences [where split = split_text_into_sentences, OF g' inr]
        show ?thesis by simp
      qed
    qed
  qed
next
  let ?g = "sentence_generator_loop start_index end_index True temperature speed_factor"
  assume lt: "generator_items generator_next n ?g app' < n"
  show "let zs = fst (gradio_sentence_generator_wrapper sentence_generator_loop generator_next n
                     start_index end_index True temperature speed_factor app')
     in length zs = Suc (generator_items generator_next n ?g app') \<and>
        \<not> loop_active (last zs) \<and>
        loop_audio (last zs) = None"
    using lt wrapper_loop_length [of generator_next n ?g start_index app']
      wrapper_loop_last [OF lt, of start_index]
    by (simp add: gradio_sentence_generator_wrapper_def Let_def)
qed

theorem error_paths_end_inactive_witness:
  "strip '' hi '' \<noteq> [] \<and>
   fst (snd (process_query_try example_llm_raises example_split_one (strip '' hi '') 0.7
               (snd (process_query_begin (strip '' hi '') example_app)))) =
     Some (Exception ''timeout'') \<and>
   fst (process_query_try example_llm_raises example_split_one (strip '' hi '') 0.7
          (snd (process_query_begin (strip '' hi '') example_app))) = [] \<and>
   \<not> pq_active (last (fst (process_query example_llm_raises example_split_one '' hi '' 0.7
                              example_app))) \<and>
   ui_messages (snd (process_query example_llm_raises example_split_one '' hi '' 0.7 example_app)) =
     [\<lparr>role = ''user'', content = ''hi''\<rparr>,
      \<lparr>role = ''assistant'', content = ''Error: timeout''\<rparr>] \<and>
   fst (snd (process_query_try example_llm_ok example_split_raises (strip '' hi '') 0.7
               (snd (process_query_begin (strip '' hi '') example_app)))) =
     Some (Exception ''boom'') \<and>
   fst (process_query_try example_llm_ok example_split_raises (strip '' hi '') 0.7
          (snd (process_query_begin (strip '' hi '') example_app))) \<noteq> [] \<and>
   \<not> pq_active (last (fst (process_query example_llm_ok example_split_raises '' hi '' 0.7
                              example_app))) \<and>
   role (last (ui_messages (snd (process_query example_llm_ok example_split_raises '' hi '' 0.7
                                   example_app)))) = ''assistant'' \<and>
   generator_items example_generator_next 3
     (example_sentence_generator_loop 0 2 True 0.7 1.2) example_app < 3 \<and>
   \<not> loop_active (last (fst (gradio_sentence_generator_wrapper example_sentence_generator_loop
                                example_generator_next 3 0 2 True 0.7 1.2 example_app))) \<and>
   generator_items example_generator_raises 3
     (example_sentence_generator_loop 0 2 True 0.7 1.2) example_app < 3 \<and>
   \<not> loop_active (last (fst (gradio_sentence_generator_wrapper example_sentence_generator_loop
                                example_generator_raises 3 0 2 True 0.7 1.2 example_app)))"
proof -
  let ?t1 = "process_query_try example_llm_raises example_split_one (strip '' hi '') 0.7
               (snd (process_query_begin (strip '' hi '') example_app))"
  let ?t2 = "process_query_try example_llm_ok example_split_raises (strip '' hi '') 0.7
               (snd (process_query_begin (strip '' hi '') example_app))"
  have h0: "strip '' hi '' \<noteq> []"
    by (simp add: strip_hi)
  have e1: "fst (snd ?t1) = Some (Exception ''timeout'')" and y1: "fst ?t1 = []"
    by (simp_all add: process_query_begin_eq process_query_try_def get_answer_def
        example_llm_raises_def example_app_def Let_def)
  have e2: "fst (snd ?t2) = Some (Exception ''boom'')" and y2: "fst ?t2 \<noteq> []"
    by (simp_all add: process_query_begin_eq process_query_try_def get_answer_def
        example_llm_ok_def example_split_raises_def update_status_eq example_app_def Let_def)
  have h1: "?t1 = (fst ?t1, Some (Exception ''timeout''), snd (snd ?t1))"
    using e1 by (simp add: prod_eq_iff)
  have h2: "?t2 = (fst ?t2, Some (Exception ''boom''), snd (snd ?t2))"
    using e2 by (simp add: prod_eq_iff)
  have g1: "generator_items example_generator_next 3
              (example_sentence_generator_loop 0 2 True 0.7 1.2) example_app < 3"
    by (simp add: numeral_3_eq_3 example_sentence_generator_loop_def example_generator_next_def)
  have g2: "generator_items example_generator_raises 3
              (example_sentence_generator_loop 0 2 True 0.7 1.2) example_app < 3"
    by (simp add: numeral_3_eq_3 example_generator_raises_def)
  show ?thesis
    using h0 e1 y1 e2 y2 g1 g2
      error_paths_end_inactive [where query = "'' hi ''" and llm_query = example_llm_raises
        and split_text_into_sentences = example_split_one and temperature = "0.7"
        and app = example_app and ys = "fst ?t1" and e = "Exception ''timeout''"
        and app_exc = "snd (snd ?t1)" and generator_next = example_generator_next and n = 3
        and sentence_generator_loop = example_sentence_generator_loop and start_index = 0
        and end_index = 2 and speed_factor = "1.2" and app' = example_app]
      error_paths_end_inactive [where query = "'' hi ''" and llm_query = example_llm_ok
        and split_text_into_sentences = example_split_raises and temperature = "0.7"
        and app = example_app and ys = "fst ?t2" and e = "Exception ''boom''"
        and app_exc = "snd (snd ?t2)" and generator_next = example_generator_raises and n = 3
        and sentence_generator_loop = example_sentence_generator_loop and start_index = 0
        and end_index = 2 and speed_factor = "1.2" and app' = example_app]
    unfolding h1 [symmetric] h2 [symmetric]
    by (simp add: Let_def strip_hi example_app_simps)
qed

section \<open>Clearing the session\<close>

lemma clear_session_eq:
  "clear_session has_history_manager clear_history super_clear_session app =
     (let app1 = super_clear_session
                   ((case llm app of
                       None \<Rightarrow> app
                     | Some l \<Rightarrow> if has_history_manager l
                                 then app\<lparr>llm := Some (clear_history l)\<rparr> else app)
                    \<lparr>ui_messages := []\<rparr>);
          status_update = ''Session cleared. Ready. (Model: '' @ current_model app1 @
                          '', Voice: '' @ current_voice app1 @ '')''
      in ((fst (clear_ui app1),
           if status_output_component app1 then Some (Update status_update) else None,
           snd (clear_ui app1), 0, False),
          app1\<lparr>current_status := status_update\<rparr>))"
  by (simp add: clear_session_def update_status_eq Let_def case_prod_beta)

text \<open>
  Claim C2, as stated, says that clearing puts both indices of the sentence cursor back
  to 0 and the status back to its initial value. The clear button writes
  \<open>sentence_index\<close> and \<open>processing_active\<close> only: a session whose end index is 3 still has
  end index 3 afterwards.
\<close>

theorem clear_keeps_end_index_counterexample:
  "sentence_end_index
     (snd (snd (clear_btn_click (\<lambda>l. True) (\<lambda>l. []) example_super_clear_session
                  (example_app, example_session)))) \<noteq> 0"
  by (simp add: clear_btn_click_def clear_session_eq Let_def case_prod_beta example_session_def)

text \<open>Nor is the status the initial empty string: it is the message set by \<open>clear_session\<close>.\<close>

lemma clear_sets_status_not_initial:
  "current_status
     (fst (snd (clear_btn_click has_history_manager clear_history super_clear_session (app, sess)))) \<noteq>
   initial_current_status"
  by (simp add: clear_btn_click_def clear_session_eq Let_def case_prod_beta initial_current_status_def)

text \<open>The two session values it writes are back at what \<open>main\<close> creates them with.\<close>

lemma clear_restores_index_and_flag:
  "sentence_index
     (snd (snd (clear_btn_click has_history_manager clear_history super_clear_session (app, sess)))) =
   sentence_index initial_session \<and>
   processing_active
     (snd (snd (clear_btn_click has_history_manager clear_history super_clear_session (app, sess)))) =
   processing_active initial_session"
  by (simp add: clear_btn_click_def clear_session_eq Let_def case_prod_beta initial_session_def)

text \<open>
  Claim C2, amended. After the clear button's handler has run, \<open>ui_messages\<close> is empty,
  \<open>current_status\<close> is \<open>Session cleared. Ready. (Model: m, Voice: v)\<close> for the current model
  and voice, the start index of the sentence cursor is 0 and the active flag is false;
  the end index is left as it was. The base class's \<open>clear_session\<close> is assumed not to
  touch \<open>ui_messages\<close>, a field that \<open>ChatApp\<close> adds.
\<close>

theorem clear_session_resets:
  assumes frame: "\<And>a. ui_messages (super_clear_session a) = ui_messages a"
  shows "(let r = clear_btn_click has_history_manager clear_history super_clear_session (app, sess);
              app' = fst (snd r);
              sess' = snd (snd r)
          in ui_messages app' = [] \<and>
             current_status app' =
               ''Session cleared. Ready. (Model: '' @ current_model app' @
               '', Voice: '' @ current_voice app' @ '')'' \<and>
             sentence_index sess' = 0 \<and>
             processing_active sess' = False \<and>
             sentence_end_index sess' = sentence_end_index sess)"
  using frame
  by (simp add: clear_btn_click_def clear_session_eq Let_def case_prod_beta)

theorem clear_session_resets_witness:
  "(\<forall>a. ui_messages (example_super_clear_session a) = ui_messages a) \<and>
   (let r = clear_btn_click (\<lambda>l. True) (\<lambda>l. []) example_super_clear_session
              (example_app\<lparr>ui_messages := [\<lparr>role = ''user'', content = ''hi''\<rparr>]\<rparr>, example_session)
    in ui_messages (fst (snd r)) = [] \<and>
       current_status (fst (snd r)) = ''Session cleared. Ready. (Model: dans, Voice: maya)'' \<and>
       sentence_index (snd (snd r)) = 0 \<and>
       processing_active (snd (snd r)) = False \<and>
       sentence_end_index (snd (snd r)) = 3)"
proof -
  have h: "ui_messages (example_super_clear_session a) = ui_messages a" for a
    by (simp add: example_super_clear_session_def)
  have m: "current_model (fst (snd (clear_btn_click (\<lambda>l. True) (\<lambda>l. []) example_super_clear_session
              (example_app\<lparr>ui_messages := [\<lparr>role = ''user'', content = ''hi''\<rparr>]\<rparr>, example_session)))) = ''dans''"
    "current_voice (fst (snd (clear_btn_click (\<lambda>l. True) (\<lambda>l. []) example_super_clear_session
              (example_app\<lparr>ui_messages := [\<lparr>role = ''user'', content = ''hi''\<rparr>]\<rparr>, example_session)))) = ''maya''"
    by (simp_all add: clear_btn_click_def clear_session_eq Let_def case_prod_beta
        example_super_clear_session_def example_app_def)
  show ?thesis
    using h m clear_session_resets [where super_clear_session = example_super_clear_session
        and has_history_manager = "\<lambda>l. True" and clear_history = "\<lambda>l. []"
        and app = "example_app\<lparr>ui_messages := [\<lparr>role = ''user'', content = ''hi''\<rparr>]\<rparr>"
        and sess = example_session, OF h]
    by (simp add: Let_def example_session_def)
qed

section \<open>Updating the system prompt\<close>

lemma strip_be_kind: "strip '' Be kind. '' = ''Be kind.''"
  by (simp add: strip_def is_space_def)

text \<open>
  Claim C9. \<open>update_system_prompt\<close> never changes \<open>ui_messages\<close>. If the constructor of
  \<open>AskLLM\<close> raises \<open>e\<close>, the global \<open>SYSTEM_MESSAGE\<close> already holds the stripped new prompt
  and keeps it, the LLM object is the old one, and the method returns normally: the
  status is \<open>Error updating system prompt: e\<close>, handed over as \<open>gr.update\<close> when the
  status box is bound (and as \<open>None\<close> otherwise).
\<close>

theorem update_system_prompt_not_atomic:
  "ui_messages (snd (update_system_prompt AskLLM new_system_prompt app)) = ui_messages app \<and>
   (AskLLM (current_resolved_alias app)
      ((llm_config app)\<lparr>SYSTEM_MESSAGE := strip new_system_prompt\<rparr>) = Inl e \<longrightarrow>
    (let r = update_system_prompt AskLLM new_system_prompt app
     in SYSTEM_MESSAGE (llm_config (snd r)) = strip new_system_prompt \<and>
        llm (snd r) = llm app \<and>
        current_status (snd r) = ''Error updating system prompt: '' @ str e \<and>
        fst r = (if status_output_component app
                 then Some (Update (''Error updating system prompt: '' @ str e)) else None)))"
  by (cases "AskLLM (current_resolved_alias app)
               ((llm_config app)\<lparr>SYSTEM_MESSAGE := strip new_system_prompt\<rparr>)")
     (simp_all add: update_system_prompt_def update_status_eq Let_def)

theorem update_system_prompt_not_atomic_witness:
  "example_AskLLM_raises (current_resolved_alias example_app)
      ((llm_config example_app)\<lparr>SYSTEM_MESSAGE := strip '' Be kind. ''\<rparr>) =
     Inl (Exception ''no such model'') \<and>
   SYSTEM_MESSAGE (llm_config example_app) = ''Be brief.'' \<and>
   SYSTEM_MESSAGE (llm_config (snd (update_system_prompt example_AskLLM_raises '' Be kind. ''
                                      example_app))) = ''Be kind.'' \<and>
   fst (update_system_prompt example_AskLLM_raises '' Be kind. '' example_app) =
     Some (Update ''Error updating system prompt: no such model'')"
proof -
  have h: "example_AskLLM_raises (current_resolved_alias example_app)
      ((llm_config example_app)\<lparr>SYSTEM_MESSAGE := strip '' Be kind. ''\<rparr>) =
     Inl (Exception ''no such model'')"
    by (simp add: example_AskLLM_raises_def)
  have c: "SYSTEM_MESSAGE (llm_config example_app) = ''Be brief.''"
    by (simp add: example_app_def)
  show ?thesis
    using h c update_system_prompt_not_atomic [where AskLLM = example_AskLLM_raises
        and new_system_prompt = "'' Be kind. ''" and app = example_app
        and e = "Exception ''no such model''"]
    by (simp add: Let_def strip_be_kind example_app_simps)
qed

section \<open>The shared lists at the start of a turn\<close>

text \<open>
  Claim C10. For every query whose stripped text is non-empty, \<open>process_query\<close> has
  emptied \<open>sentences\<close> and \<open>audio_segments\<close> and appended the user message by the time it
  yields its first tuple; \<open>audio_segments\<close> is still empty when it ends; and what it yields
  and the state it leaves are the same whatever the two lists held before, so nothing of
  a previous turn survives. (The lock around the two assignments is not modelled.)
\<close>

theorem process_query_discards_previous_turn:
  assumes nonempty: "strip query \<noteq> []"
  shows "(let b = process_query_begin (strip query) app;
              r = process_query llm_query split_text_into_sentences query temperature app
          in sentences (snd b) = [] \<and>
             audio_segments (snd b) = [] \<and>
             ui_messages (snd b) = ui_messages app @ [\<lparr>role = ''user'', content = strip query\<rparr>] \<and>
             hd (fst r) = fst b \<and>
             audio_segments (snd r) = [] \<and>
             process_query llm_query split_text_into_sentences query temperature
               (app\<lparr>sentences := old_sentences, audio_segments := old_audio_segments\<rparr>) = r)"
proof -
  let ?app0 = "snd (process_query_begin (strip query) app)"
  have same: "process_query_begin (strip query)
                (app\<lparr>sentences := old_sentences, audio_segments := old_audio_segments\<rparr>) =
              process_query_begin (strip query) app"
    by (simp add: process_query_begin_eq)
  have indep: "process_query llm_query split_text_into_sentences query temperature
               (app\<lparr>sentences := old_sentences, audio_segments := old_audio_segments\<rparr>) =
             process_query llm_query split_text_into_sentences query temperature app"
    using nonempty by (simp add: process_query_def Let_def same)
  have hd: "hd (fst (process_query llm_query split_text_into_sentences query temperature app)) =
            fst (process_query_begin (strip query) app)"
    using nonempty
    by (simp add: process_query_def Let_def case_prod_beta split: option.splits)
  obtain r0 where r0: "fst (get_answer llm_query (strip query)
       (app\<lparr>llm_config := (llm_config app)\<lparr>TEMPERATURE := temperature\<rparr>\<rparr>)) = r0"
    by simp
  from r0 obtain app2 where
    g: "get_answer llm_query (strip query)
          (?app0\<lparr>llm_config := (llm_config ?app0)\<lparr>TEMPERATURE := temperature\<rparr>\<rparr>) = (r0, app2)"
    and fr: "audio_segments app2 = []"
    by (rule get_answer_in_process_query)
  have au: "audio_segments (snd (snd (process_query_try llm_query split_text_into_sentences
              (strip query) temperature ?app0))) = []"
    using g fr
    by (simp add: process_query_try_def update_status_eq Let_def split: sum.splits)
  have "audio_segments (snd (process_query llm_query split_text_into_sentences query temperature app)) = []"
    using nonempty au
    by (simp add: process_query_def Let_def case_prod_beta process_query_except_eq
        split: option.splits)
  with hd indep show ?thesis
    by (simp add: Let_def process_query_begin_eq)
qed

theorem process_query_discards_previous_turn_witness:
  "strip '' hi '' \<noteq> [] \<and>
   sentences example_app = [''Old sentence.''] \<and>
   audio_segments example_app = [7] \<and>
   sentences (snd (process_query_begin (strip '' hi '') example_app)) = [] \<and>
   audio_segments (snd (process_query_begin (strip '' hi '') example_app)) = [] \<and>
   ui_messages (snd (process_query_begin (strip '' hi '') example_app)) =
     [\<lparr>role = ''user'', content = ''hi''\<rparr>] \<and>
   audio_segments (snd (process_query example_llm_ok example_split_one '' hi '' 0.7 example_app)) = [] \<and>
   process_query example_llm_ok example_split_one '' hi '' 0.7
     (example_app\<lparr>sentences := [], audio_segments := []\<rparr>) =
   process_query example_llm_ok example_split_one '' hi '' 0.7 example_app"
proof -
  have h: "strip '' hi '' \<noteq> []"
    by (simp add: strip_hi)
  have old: "sentences example_app = [''Old sentence.'']" "audio_segments example_app = [7]"
    by (simp_all add: example_app_def)
  show ?thesis
    using h old
      process_query_discards_previous_turn [OF h, of example_app example_llm_ok example_split_one
        "0.7" "[]" "[]"]
    by (simp add: Let_def strip_hi example_app_simps)
qed

end
